theory Spec2Isabelle
  imports Main "HOL-Library.Sublist"
begin

section \<open>The platform detector of eagle-dev/releasing/execution.py\<close>

text \<open>
  The source file holds one function:
  \<^verbatim>\<open>
  import platform

  def is_windows():
      s = platform.system().lower()
      return s.startswith("win")
  \<close>
  It calls three things that are not its own: the query \<^verbatim>\<open>platform.system()\<close> of the
  standard library, and the string methods \<^verbatim>\<open>lower\<close> and \<^verbatim>\<open>startswith\<close>. The string
  methods are modelled below as the interpreter implements them. The query is a
  parameter of the model; two instances of it are given, a plain read of the environment
  and the library's query with the cache it keeps.
\<close>

subsection \<open>Strings\<close>

text \<open>
  A platform name is a \<^typ>\<open>string\<close>: a list of 8-bit characters, which is what
  \<^verbatim>\<open>str\<close> holds under a Python 2 interpreter (a byte string), and what the system
  name reported by the operating system is made of. On such strings
  \<^verbatim>\<open>lower\<close> replaces each of the 26 letters \<^verbatim>\<open>A\<close> .. \<^verbatim>\<open>Z\<close> (codes 65 .. 90) by
  the letter 32 codes above it and leaves every other character alone; \<^verbatim>\<open>upper\<close>
  does the converse on \<^verbatim>\<open>a\<close> .. \<^verbatim>\<open>z\<close> (codes 97 .. 122). The text strings of a
  Python 3 interpreter, with the Unicode case mappings, are modelled further below.
\<close>

definition lower_char :: "char \<Rightarrow> char" where
  "lower_char c =
     (let n = of_char c :: nat in if 65 \<le> n \<and> n \<le> 90 then char_of (n + 32) else c)"

definition upper_char :: "char \<Rightarrow> char" where
  "upper_char c =
     (let n = of_char c :: nat in if 97 \<le> n \<and> n \<le> 122 then char_of (n - 32) else c)"

definition lower :: "string \<Rightarrow> string" where
  "lower s = map lower_char s"

definition upper :: "string \<Rightarrow> string" where
  "upper s = map upper_char s"

text \<open>
  \<^verbatim>\<open>s.startswith(p)\<close> compares lengths first and then the first \<open>len(p)\<close> characters
  of \<open>s\<close> with \<open>p\<close>; it never reads beyond the end of \<open>s\<close> and never raises.
\<close>

definition startswith :: "string \<Rightarrow> string \<Rightarrow> bool" where
  "startswith s p = (length p \<le> length s \<and> take (length p) s = p)"

subsection \<open>The environment and the query\<close>

text \<open>
  The ambient state is an extensible record: the platform identifier, and whatever else
  the process and the file system hold in the extension. \<open>platform_system\<close> is the
  query that reads the identifier and leaves the state alone: what a single call sees
  of the library's query. The cache the library keeps across calls is modelled below.
\<close>

record env =
  system_name :: string

definition platform_system :: "'a env_scheme \<Rightarrow> ('e + string) \<times> 'a env_scheme" where
  "platform_system e = (Inr (system_name e), e)"

subsection \<open>The detector\<close>

text \<open>
  \<open>is_windows system st\<close> runs the body of the function in state \<open>st\<close>, with
  \<open>system\<close> for \<^verbatim>\<open>platform.system\<close>: a query returns a name or raises (\<open>Inl\<close>), and
  hands back the state it leaves. The function has no handler, so an exception of the
  query leaves it unchanged; it has no assignment to anything but its local \<open>s\<close>.
\<close>

definition is_windows :: "('st \<Rightarrow> ('e + string) \<times> 'st) \<Rightarrow> 'st \<Rightarrow> ('e + bool) \<times> 'st" where
  "is_windows system st =
     (case system st of
        (Inl err, st') \<Rightarrow> (Inl err, st')
      | (Inr name, st') \<Rightarrow> (let s = lower name in (Inr (startswith s ''win''), st')))"

text \<open>The value \<open>is_windows\<close> returns when the ambient platform identifier is \<open>s\<close>.\<close>

definition is_windows_on :: "string \<Rightarrow> 'e + bool" where
  "is_windows_on s = fst (is_windows platform_system \<lparr>system_name = s\<rparr>)"

subsection \<open>The library query and its cache\<close>



subsection \<open>Text strings\<close>

text \<open>
  Under a Python 3 interpreter \<^verbatim>\<open>str\<close> is a text string: a sequence of Unicode code
  points, and \<^verbatim>\<open>lower\<close> and \<^verbatim>\<open>upper\<close> are the Unicode case mappings, which may
  replace one code point by several. A text string is modelled as a list of code points.
  The case mappings are written out for the blocks Basic Latin, Latin-1 Supplement and
  Latin Extended-A (code points up to \<open>0x17F\<close>), where every mapping is independent of
  the neighbouring characters; on a code point beyond these blocks the model gives no
  answer (\<open>None\<close>), which stands for "not covered by the table", not for a failure of
  the program.
\<close>

type_synonym ustring = "nat list"

definition lower_cp :: "nat \<Rightarrow> nat list option" where
  "lower_cp c =
     (if 0x17F < c then None
      else if c = 0x130 then Some [0x69, 0x307]
      else if c = 0x178 then Some [0xFF]
      else if (0x41 \<le> c \<and> c \<le> 0x5A) \<or> (0xC0 \<le> c \<and> c \<le> 0xDE \<and> c \<noteq> 0xD7)
        then Some [c + 32]
      else if even c \<and> ((0x100 \<le> c \<and> c \<le> 0x12E) \<or> (0x132 \<le> c \<and> c \<le> 0x136)
          \<or> (0x14A \<le> c \<and> c \<le> 0x176))
        then Some [c + 1]
      else if odd c \<and> ((0x139 \<le> c \<and> c \<le> 0x147) \<or> (0x179 \<le> c \<and> c \<le> 0x17D))
        then Some [c + 1]
      else Some [c])"

definition upper_cp :: "nat \<Rightarrow> nat list option" where
  "upper_cp c =
     (if 0x17F < c then None
      else if c = 0xB5 then Some [0x39C]
      else if c = 0xDF then Some [0x53, 0x53]
      else if c = 0xFF then Some [0x178]
      else if c = 0x131 then Some [0x49]
      else if c = 0x149 then Some [0x2BC, 0x4E]
      else if c = 0x17F then Some [0x53]
      else if (0x61 \<le> c \<and> c \<le> 0x7A) \<or> (0xE0 \<le> c \<and> c \<le> 0xFE \<and> c \<noteq> 0xF7)
        then Some [c - 32]
      else if odd c \<and> ((0x101 \<le> c \<and> c \<le> 0x12F) \<or> (0x133 \<le> c \<and> c \<le> 0x137)
          \<or> (0x14B \<le> c \<and> c \<le> 0x177))
        then Some [c - 1]
      else if even c \<and> ((0x13A \<le> c \<and> c \<le> 0x148) \<or> (0x17A \<le> c \<and> c \<le> 0x17E))
        then Some [c - 1]
      else Some [c])"

fun str_lower :: "ustring \<Rightarrow> ustring option" where
  "str_lower [] = Some []"
| "str_lower (c # cs) =
     (case lower_cp c of
        None \<Rightarrow> None
      | Some l \<Rightarrow> (case str_lower cs of None \<Rightarrow> None | Some r \<Rightarrow> Some (l @ r)))"

fun str_upper :: "ustring \<Rightarrow> ustring option" where
  "str_upper [] = Some []"
| "str_upper (c # cs) =
     (case upper_cp c of
        None \<Rightarrow> None
      | Some u \<Rightarrow> (case str_upper cs of None \<Rightarrow> None | Some r \<Rightarrow> Some (u @ r)))"

definition startswith_text :: "ustring \<Rightarrow> ustring \<Rightarrow> bool" where
  "startswith_text s p = (length p \<le> length s \<and> take (length p) s = p)"

text \<open>
  The body of \<open>is_windows\<close> on a text string: \<open>is_windows_text name\<close> is the boolean
  the function returns when the query returns the text \<open>name\<close>; the literal
  \<^verbatim>\<open>"win"\<close> is the code points \<open>0x77\<close>, \<open>0x69\<close>, \<open>0x6E\<close>.
\<close>

definition is_windows_text :: "ustring \<Rightarrow> bool option" where
  "is_windows_text name =
     (case str_lower name of
        None \<Rightarrow> None
      | Some s \<Rightarrow> Some (startswith_text s [0x77, 0x69, 0x6E]))"

section \<open>Properties\<close>

subsection \<open>Case mapping and prefixes\<close>

lemma lower_char_idem: "lower_char (lower_char c) = lower_char c"
  by (auto simp add: lower_char_def Let_def)

lemma lower_upper_char: "lower_char (upper_char c) = lower_char c"
  by (auto simp add: lower_char_def upper_char_def Let_def)

lemma lower_lower: "lower (lower s) = lower s"
  by (simp add: lower_def lower_char_idem)

lemma lower_upper: "lower (upper s) = lower s"
  by (simp add: lower_def upper_def lower_upper_char)

lemma lower_append: "lower (s @ t) = lower s @ lower t"
  by (simp add: lower_def)

lemma lower_take: "lower (take n s) = take n (lower s)"
  by (simp add: lower_def take_map)

lemma length_lower: "length (lower s) = length s"
  by (simp add: lower_def)

lemma lower_update: "lower (s[i := c]) = (lower s)[i := lower_char c]"
  by (simp add: lower_def map_update)

lemma lower_update_same_case:
  assumes "lower_char c = lower_char (s ! i)"
  shows "lower (s[i := c]) = lower s"
proof (cases "i < length s")
  case True
  then have "(lower s)[i := lower_char (s ! i)] = lower s"
    by (simp add: lower_def list_update_same_conv)
  with assms show ?thesis
    by (simp add: lower_update)
next
  case False
  then have "s[i := c] = s"
    by (simp add: not_less list_update_beyond)
  then show ?thesis
    by simp
qed

lemma startswith_prefix: "startswith s p = prefix p s"
proof
  assume "startswith s p"
  then have "s = p @ drop (length p) s"
    by (metis append_take_drop_id startswith_def)
  then show "prefix p s"
    by (rule prefixI)
next
  assume "prefix p s"
  then obtain r where "s = p @ r"
    by (auto simp add: prefix_def)
  then show "startswith s p"
    by (simp add: startswith_def)
qed

lemma startswith_take: "length p \<le> n \<Longrightarrow> startswith (take n s) p = startswith s p"
  by (auto simp add: startswith_def min_def)

lemma is_windows_result:
  "fst (is_windows system st) =
     (case fst (system st) of Inl err \<Rightarrow> Inl err | Inr name \<Rightarrow> Inr (startswith (lower name) ''win''))"
  by (simp add: is_windows_def Let_def split: prod.splits sum.splits)


lemma is_windows_on_eq: "is_windows_on s = Inr (startswith (lower s) ''win'')"
  by (simp add: is_windows_on_def is_windows_result platform_system_def)

subsection \<open>Text strings of ASCII characters\<close>

lemma lower_cp_ascii:
  "c < 128 \<Longrightarrow> lower_cp c = Some [if 65 \<le> c \<and> c \<le> 90 then c + 32 else c]"
  by (simp add: lower_cp_def)

lemma upper_cp_ascii:
  "c < 128 \<Longrightarrow> upper_cp c = Some [if 97 \<le> c \<and> c \<le> 122 then c - 32 else c]"
  by (simp add: upper_cp_def)

lemma str_lower_ascii:
  "\<forall>c\<in>set s. c < 128 \<Longrightarrow>
     str_lower s = Some (map (\<lambda>c. if 65 \<le> c \<and> c \<le> 90 then c + 32 else c) s)"
  by (induction s) (simp_all add: lower_cp_ascii)

lemma str_upper_ascii:
  "\<forall>c\<in>set s. c < 128 \<Longrightarrow>
     str_upper s = Some (map (\<lambda>c. if 97 \<le> c \<and> c \<le> 122 then c - 32 else c) s)"
  by (induction s) (simp_all add: upper_cp_ascii)

lemma is_windows_text_ascii:
  "\<forall>c\<in>set s. c < 128 \<Longrightarrow>
     is_windows_text s =
       Some (startswith_text (map (\<lambda>c. if 65 \<le> c \<and> c \<le> 90 then c + 32 else c) s) [0x77, 0x69, 0x6E])"
  by (simp add: is_windows_text_def str_lower_ascii)

subsection \<open>What the detector returns\<close>

text \<open>
  C1. For every platform-name string \<open>s\<close> supplied as the ambient platform identifier
  (in any environment, whatever else it holds), \<open>is_windows\<close> returns true if and
  only if the lowercased form of \<open>s\<close> starts with the prefix \<open>win\<close>: the value
  returned is the truth value of that prefix test.
\<close>

theorem is_windows_iff_lower_prefix:
  "fst (is_windows platform_system (e\<lparr>system_name := s\<rparr>)) = Inr (prefix ''win'' (lower s))"
  by (simp add: is_windows_result platform_system_def startswith_prefix)

text \<open>
  C2. Case insensitivity on the positive side: \<open>is_windows\<close> returns true when the
  platform identifier is \<open>WINDOWS\<close>, \<open>Windows\<close>, \<open>windows\<close> or \<open>win32\<close>.
\<close>

theorem is_windows_positive_examples:
  "is_windows_on ''WINDOWS'' = (Inr True :: unit + bool) \<and>
   is_windows_on ''Windows'' = (Inr True :: unit + bool) \<and>
   is_windows_on ''windows'' = (Inr True :: unit + bool) \<and>
   is_windows_on ''win32'' = (Inr True :: unit + bool)"
  by code_simp

text \<open>
  C3. Negative cases: \<open>is_windows\<close> returns false when the platform identifier is
  \<open>Linux\<close>, when it is \<open>Darwin\<close>, and when it is the empty string.
\<close>

theorem is_windows_negative_examples:
  "is_windows_on ''Linux'' = (Inr False :: unit + bool) \<and>
   is_windows_on ''Darwin'' = (Inr False :: unit + bool) \<and>
   is_windows_on [] = (Inr False :: unit + bool)"
  by code_simp

text \<open>
  C8. Short strings: for every platform identifier of fewer than three characters,
  \<open>is_windows\<close> returns false.
\<close>

theorem is_windows_short_false:
  assumes "length s < 3"
  shows "is_windows_on s = Inr False"
  using assms by (simp add: is_windows_on_eq startswith_def length_lower)

theorem is_windows_short_false_witness:
  "length ''wi'' < 3 \<and> is_windows_on ''wi'' = (Inr False :: unit + bool)"
proof -
  have short: "length ''wi'' < 3"
    by simp
  from is_windows_short_false [OF short] show ?thesis
    by simp
qed

subsection \<open>Letter case and extension\<close>

text \<open>
  On byte strings the case mappings are the ASCII ones on every character, and the
  result on \<open>s\<close>, on \<open>lower s\<close> and on \<open>upper s\<close> is the same; so is the result
  after changing the case of the character at one position.
\<close>

lemma is_windows_on_case_invariant:
  "is_windows_on (lower s) = is_windows_on s \<and>
   is_windows_on (upper s) = is_windows_on s \<and>
   is_windows_on (s[i := lower_char (s ! i)]) = is_windows_on s \<and>
   is_windows_on (s[i := upper_char (s ! i)]) = is_windows_on s"
  by (simp add: is_windows_on_eq lower_lower lower_upper lower_update_same_case
      lower_char_idem lower_upper_char)

text \<open>
  C9, as amended. Case invariance on ASCII strings: for every text string \<open>s\<close> whose
  characters are all ASCII (code points below 128), \<open>is_windows\<close> returns the same
  value on \<open>s\<close>, on its lowercased form and on its uppercased form; and replacing the
  character at any single position \<open>i\<close> by its lowercase or its uppercase never changes
  the result.
\<close>

theorem is_windows_text_case_invariant_ascii:
  assumes ascii: "\<forall>c\<in>set s. c < 128"
  shows "(\<exists>l. str_lower s = Some l \<and> is_windows_text l = is_windows_text s) \<and>
         (\<exists>u. str_upper s = Some u \<and> is_windows_text u = is_windows_text s) \<and>
         (\<forall>c'. lower_cp (s ! i) = Some [c'] \<or> upper_cp (s ! i) = Some [c']
            \<longrightarrow> is_windows_text (s[i := c']) = is_windows_text s) \<and>
         is_windows_text s \<noteq> None"
proof -
  define al where "al = (\<lambda>c::nat. if 65 \<le> c \<and> c \<le> 90 then c + 32 else c)"
  define au where "au = (\<lambda>c::nat. if 97 \<le> c \<and> c \<le> 122 then c - 32 else c)"
  have al_al: "al (al c) = al c" for c
    by (simp add: al_def)
  have al_au: "al (au c) = al c" for c
    by (auto simp add: al_def au_def)
  have al_less: "al c < 128" if "c < 128" for c
    using that by (simp add: al_def)
  have au_less: "au c < 128" if "c < 128" for c
    using that by (auto simp add: au_def)
  have res: "is_windows_text t = Some (startswith_text (map al t) [0x77, 0x69, 0x6E])"
    if "\<forall>c\<in>set t. c < 128" for t
    using that by (simp add: is_windows_text_ascii al_def)
  have low: "str_lower s = Some (map al s)"
    using ascii by (simp add: str_lower_ascii al_def)
  have upp: "str_upper s = Some (map au s)"
    using ascii by (simp add: str_upper_ascii au_def)
  have "\<forall>c\<in>set (map al s). c < 128"
    using ascii by (simp add: al_less)
  then have "is_windows_text (map al s) = is_windows_text s"
    using ascii by (simp add: res comp_def al_al)
  with low have part1: "\<exists>l. str_lower s = Some l \<and> is_windows_text l = is_windows_text s"
    by simp
  have "\<forall>c\<in>set (map au s). c < 128"
    using ascii by (simp add: au_less)
  then have "is_windows_text (map au s) = is_windows_text s"
    using ascii by (simp add: res comp_def al_au)
  with upp have part2: "\<exists>u. str_upper s = Some u \<and> is_windows_text u = is_windows_text s"
    by simp
  have part3: "is_windows_text (s[i := c']) = is_windows_text s"
    if c': "lower_cp (s ! i) = Some [c'] \<or> upper_cp (s ! i) = Some [c']" for c'
  proof (cases "i < length s")
    case True
    with ascii have small: "s ! i < 128"
      by simp
    with c' have "c' = al (s ! i) \<or> c' = au (s ! i)"
      by (auto simp add: lower_cp_ascii upper_cp_ascii al_def au_def)
    then have same: "al c' = al (s ! i)" and less: "c' < 128"
      using small by (auto simp add: al_al al_au al_less au_less)
    from less ascii have "\<forall>c\<in>set (s[i := c']). c < 128"
      by (auto dest: set_update_subset_insert [THEN subsetD])
    then have "is_windows_text (s[i := c']) = Some (startswith_text (map al (s[i := c'])) [0x77, 0x69, 0x6E])"
      by (rule res)
    also have "map al (s[i := c']) = (map al s)[i := al (s ! i)]"
      by (simp add: map_update same)
    also have "\<dots> = map al s"
      using True by (simp add: list_update_same_conv)
    finally show ?thesis
      using ascii by (simp add: res)
  next
    case False
    then have "s[i := c'] = s"
      by (simp add: not_less list_update_beyond)
    then show ?thesis
      by simp
  qed
  have part4: "is_windows_text s \<noteq> None"
    using ascii by (simp add: res)
  from part1 part2 part3 part4 show ?thesis
    by blast
qed

theorem is_windows_text_case_invariant_ascii_witness:
  "str_upper [0x57, 0x69, 0x4E] = Some [0x57, 0x49, 0x4E] \<and>
   is_windows_text [0x57, 0x49, 0x4E] = is_windows_text [0x57, 0x69, 0x4E] \<and>
   is_windows_text [0x57, 0x69, 0x4E] = Some True"
proof -
  have ascii: "\<forall>c\<in>set [0x57, 0x69, 0x4E]. c < (128::nat)"
    by simp
  have upp: "str_upper [0x57, 0x69, 0x4E] = Some [0x57, 0x49, 0x4E]"
    by code_simp
  have val: "is_windows_text [0x57, 0x69, 0x4E] = Some True"
    by code_simp
  from is_windows_text_case_invariant_ascii [OF ascii, of 0] upp val show ?thesis
    by auto
qed

text \<open>
  C9 as the specification states it, for every string, fails on text strings. The
  uppercase of the dotless i (\<open>U+0131\<close>) is the letter \<open>I\<close>: the name made of \<open>w\<close>,
  dotless i and \<open>n\<close> is not classified as Windows, its uppercased form \<open>WIN\<close> is.
\<close>

theorem is_windows_case_invariant_counterexample:
  "str_upper [0x77, 0x131, 0x6E] = Some [0x57, 0x49, 0x4E] \<and>
   is_windows_text [0x77, 0x131, 0x6E] = Some False \<and>
   is_windows_text [0x57, 0x49, 0x4E] = Some True"
  by code_simp

text \<open>
  C10. Prefix-only dependence: if \<open>is_windows\<close> returns true on \<open>s\<close> then it returns
  true on \<open>s\<close> followed by any string \<open>t\<close>; the result on \<open>s\<close> is the result on the
  first three characters of \<open>s\<close>; and so the name \<open>winter\<close> is classified as Windows.
\<close>

theorem is_windows_prefix_only:
  "(is_windows_on s = Inr True \<longrightarrow> is_windows_on (s @ t) = Inr True) \<and>
   is_windows_on s = is_windows_on (take 3 s) \<and>
   is_windows_on ''winter'' = Inr True"
proof (intro conjI impI)
  assume "is_windows_on s = Inr True"
  then have "prefix ''win'' (lower s)"
    by (simp add: is_windows_on_eq startswith_prefix)
  then have "prefix ''win'' (lower s @ lower t)"
    by (rule prefix_prefix)
  then show "is_windows_on (s @ t) = Inr True"
    by (simp add: is_windows_on_eq startswith_prefix lower_append)
next
  show "is_windows_on s = is_windows_on (take 3 s)"
    by (simp add: is_windows_on_eq lower_take startswith_take)
next
  have "lower ''winter'' = ''winter''"
    by code_simp
  then show "is_windows_on ''winter'' = Inr True"
    by (simp add: is_windows_on_eq startswith_def)
qed

theorem is_windows_prefix_only_witness:
  "is_windows_on ''Win'' = (Inr True :: unit + bool) \<and>
   is_windows_on (''Win'' @ ''dows'') = (Inr True :: unit + bool)"
proof -
  have win: "is_windows_on ''Win'' = (Inr True :: unit + bool)"
    by code_simp
  from is_windows_prefix_only [of "''Win''" "''dows''"] win show ?thesis
    by blast
qed

subsection \<open>State, effects and failure\<close>

text \<open>
  C4. Determinism: when the query reports the same platform identifier \<open>s\<close> at two
  successive invocations (no change of the environment between them), both return the
  same value, and that value is the one fixed by \<open>s\<close> alone.
\<close>

theorem is_windows_deterministic:
  assumes "fst (system st) = Inr s"
    and "fst (system (snd (is_windows system st))) = Inr s"
  shows "fst (is_windows system (snd (is_windows system st))) = fst (is_windows system st) \<and>
         fst (is_windows system st) = is_windows_on s"
  using assms by (simp add: is_windows_result is_windows_on_eq)

theorem is_windows_deterministic_witness:
  "fst (is_windows (platform_system :: env \<Rightarrow> (unit + string) \<times> env)
      (snd (is_windows (platform_system :: env \<Rightarrow> (unit + string) \<times> env)
        \<lparr>system_name = ''Windows''\<rparr>))) = Inr True \<and>
   fst (is_windows (platform_system :: env \<Rightarrow> (unit + string) \<times> env)
      \<lparr>system_name = ''Windows''\<rparr>) = Inr True"
proof -
  let ?q = "platform_system :: env \<Rightarrow> (unit + string) \<times> env"
  let ?e = "\<lparr>system_name = ''Windows''\<rparr>"
  have first: "fst (?q ?e) = Inr ''Windows''"
    by (simp add: platform_system_def)
  have second: "fst (?q (snd (is_windows ?q ?e))) = Inr ''Windows''"
    by (simp add: platform_system_def is_windows_def)
  have val: "is_windows_on ''Windows'' = (Inr True :: unit + bool)"
    by code_simp
  from is_windows_deterministic [OF first second] val show ?thesis
    by simp
qed



text \<open>
  C6. Totality: for every string supplied as the platform identifier \<open>is_windows\<close>
  returns a boolean; it fails exactly when the environment query fails, with the query's
  error, and returns a boolean exactly when the query returns a name.
\<close>

theorem is_windows_total:
  "(\<exists>b. fst (is_windows platform_system (e\<lparr>system_name := s\<rparr>)) = Inr b) \<and>
   (fst (is_windows system st) = Inl err) = (fst (system st) = Inl err) \<and>
   (\<exists>b. fst (is_windows system st) = Inr b) = (\<exists>name. fst (system st) = Inr name)"
  by (auto simp add: is_windows_result platform_system_def split: sum.splits)



end
